theory Spec2Isabelle
  imports Complex_Main "HOL-Library.Char_ord" "HOL-Library.Sublist" "HOL-Library.Word"
begin

section \<open>Strings\<close>

text \<open>
  A Go string is a sequence of bytes; it is modelled as a \<^typ>\<open>string\<close>, whose
  characters are bytes. \<open>strings.Index\<close> and \<open>strings.LastIndex\<close> return the byte
  offset of the first and of the last occurrence of a substring, and \<open>-1\<close> when there is
  none.
\<close>

fun index_from :: "string \<Rightarrow> string \<Rightarrow> int \<Rightarrow> int" where
  "index_from s sub i =
     (if prefix sub s then i
      else (case s of [] \<Rightarrow> - 1 | c # t \<Rightarrow> index_from t sub (i + 1)))"

declare index_from.simps [simp del]

definition strings_Index :: "string \<Rightarrow> string \<Rightarrow> int" where
  "strings_Index s sub = index_from s sub 0"

definition strings_LastIndex :: "string \<Rightarrow> string \<Rightarrow> int" where
  "strings_LastIndex s sub =
     (let r = strings_Index (rev s) (rev sub)
      in if r < 0 then - 1 else int (length s) - int (length sub) - r)"


text \<open>\<open>strings.Contains\<close>, \<open>strings.HasPrefix\<close> is \<^const>\<open>prefix\<close>.\<close>

definition strings_Contains :: "string \<Rightarrow> string \<Rightarrow> bool" where
  "strings_Contains s sub = (strings_Index s sub \<ge> 0)"








section \<open>The filename heuristic: looksLikeID\<close>

text \<open>
  The loop \<^verbatim>\<open>for _, r := range name { if r < '0' || r > '9' { return false } }\<close>
  ranges over the runes of the name. A byte below 128 is a rune of its own, and every
  other rune (also the replacement rune of an invalid encoding) lies above \<open>'9'\<close>, as does
  each of its bytes: the loop over the bytes returns what the loop over the runes returns.
\<close>

fun has_non_digit :: "string \<Rightarrow> bool" where
  "has_non_digit [] = False"
| "has_non_digit (r # rs) =
     (if r < CHR ''0'' \<or> r > CHR ''9'' then True else has_non_digit rs)"

definition looksLikeID :: "string \<Rightarrow> bool" where
  "looksLikeID name =
     (let idx = strings_LastIndex name ''.'';
          name' = (if idx \<noteq> - 1 then take (nat idx) name else name)
      in if has_non_digit name' then False else length name' > 0)"






section \<open>The data model of the downloader\<close>

text \<open>
  \<open>config.FileEntry\<close>, the request of one transfer. The fields \<open>Title\<close>,
  \<open>Description\<close> and \<open>SourceURL\<close> are carried along and never read by the downloader.
\<close>

record FileEntry =
  ID :: string
  URL :: string
  FileName :: string
  Folder :: string
  Title :: string
  Description :: string
  SourceURL :: string
  UseToken :: bool

text \<open>
  One call of \<open>resp.Body.Read(buf)\<close> inside the copy loop of \<open>Download\<close>, together
  with what the surroundings answer during that iteration: \<open>ctxErr\<close> is \<open>Some\<close> of
  the message of \<open>ctx.Err()\<close> when \<open>ctx.Done()\<close> is ready at the check before the read;
  \<open>rdata\<close> are the \<open>n\<close> bytes the read delivers; \<open>rerr\<close> is its error; \<open>writeErr\<close>
  is the error of \<open>file.Write(buf[:n])\<close>, if any; \<open>elapsed\<close> is the value of
  \<open>time.Since(startTime).Seconds()\<close> after the write.
\<close>

datatype read_err = NoErr | EOF | ReadErr string

record read_step =
  ctxErr :: "string option"
  rdata :: string
  rerr :: read_err
  writeErr :: "string option"
  elapsed :: real

text \<open>
  The part of \<open>http.Response\<close> the code reads. \<open>ContentLength\<close> is an \<open>int64\<close>
  (\<open>-1\<close> when the length is unknown); \<open>Header\<close> maps a header name to the value
  \<open>resp.Header.Get\<close> returns, the empty string when the header is absent; \<open>Body\<close> is the
  sequence of reads the body answers with. A \<open>Body\<close> that runs out before a read returns
  \<open>io.EOF\<close> or an error is a body whose next read never returns.
\<close>

record Response =
  StatusCode :: int
  Status :: string
  ContentLength :: "64 word"
  Header :: "string \<Rightarrow> string"
  Body :: "read_step list"

text \<open>
  \<open>Progress\<close>. The two \<open>int64\<close> fields are 64-bit words, read as signed numbers with
  \<^const>\<open>sint\<close>. The two \<open>float64\<close> fields are modelled as real numbers: the rounding of
  the floating-point division is not modelled, and no statement below depends on it.
\<close>

record Progress =
  FileID :: string
  FileName :: string
  Total :: "64 word"
  Downloaded :: "64 word"
  Percent :: real
  Speed :: real
  Status :: string
  Error :: string

record FileStatus =
  Exists :: bool
  Size :: "64 word"

text \<open>
  A buffered channel of \<open>Progress\<close> values: its identity, its capacity and the values
  queued in it, the oldest first.
\<close>

record chan =
  chanId :: nat
  cap :: nat
  buf :: "Progress list"

text \<open>
  What \<open>os.Stat\<close> can find at a path: nothing; an entry it cannot examine (the call
  fails with the given message, as it does for a path below a directory without search
  permission); a regular file with its content; a directory with the size the system
  reports for it.
\<close>

datatype node = NoEntry | StatFails string | RegularFile string | Directory "64 word"

text \<open>
  The state of the program and of the world it acts on. \<open>d.progress\<close> is a
  \<open>map[string]*Progress\<close>: \<open>progress\<close> maps an identifier to the address of a
  \<open>Progress\<close> object and \<open>heap\<close> holds the objects; \<open>nextAddr\<close> is the next address
  \<open>&Progress{...}\<close> allocates. \<open>cancelFns\<close> holds the keys of \<open>d.cancelFns\<close>.
  \<open>listeners\<close> is \<open>d.listeners\<close>, \<open>nextChan\<close> the identity of the next channel made.
  \<open>fs\<close> is the file system. The last two fields are logs of calls and no fields of the
  Go struct: \<open>requests\<close> lists the method and URL of every request handed to
  \<open>client.Do\<close>, \<open>published\<close> the argument of every call of \<open>broadcast\<close>, in call order.
\<close>

record state =
  heap :: "nat \<Rightarrow> Progress"
  nextAddr :: nat
  progress :: "string \<rightharpoonup> nat"
  cancelFns :: "string set"
  listeners :: "chan list"
  nextChan :: nat
  fs :: "string \<Rightarrow> node"
  requests :: "(string \<times> string) list"
  published :: "Progress list"

section \<open>Subscribers and broadcast\<close>

definition Subscribe :: "state \<Rightarrow> chan \<times> state" where
  "Subscribe st =
     (let ch = \<lparr>chanId = nextChan st, cap = 100, buf = []\<rparr>
      in (ch, st\<lparr>listeners := listeners st @ [ch], nextChan := Suc (nextChan st)\<rparr>))"

text \<open>\<open>Unsubscribe\<close> removes the first listener that is the given channel.\<close>

fun remove_listener :: "nat \<Rightarrow> chan list \<Rightarrow> chan list" where
  "remove_listener c [] = []"
| "remove_listener c (listener # rest) =
     (if chanId listener = c then rest else listener # remove_listener c rest)"

definition Unsubscribe :: "state \<Rightarrow> nat \<Rightarrow> state" where
  "Unsubscribe st c = st\<lparr>listeners := remove_listener c (listeners st)\<rparr>"

text \<open>
  \<^verbatim>\<open>select { case ch <- p: default: }\<close>: the send on a buffered channel goes through
  when the buffer has room, and the default branch is taken when it is full.
\<close>

definition trySend :: "chan \<Rightarrow> Progress \<Rightarrow> chan" where
  "trySend ch p = (if length (buf ch) < cap ch then ch\<lparr>buf := buf ch @ [p]\<rparr> else ch)"

fun broadcast_loop :: "chan list \<Rightarrow> Progress \<Rightarrow> chan list" where
  "broadcast_loop [] p = []"
| "broadcast_loop (ch # chs) p = trySend ch p # broadcast_loop chs p"

definition broadcast :: "state \<Rightarrow> Progress \<Rightarrow> state" where
  "broadcast st p =
     st\<lparr>listeners := broadcast_loop (listeners st) p, published := published st @ [p]\<rparr>"

section \<open>The surroundings\<close>

text \<open>
  \<open>url.URL\<close>, as \<open>url.Parse\<close> fills it. The user information is the user name and,
  when there is one, the password.
\<close>

record url_URL =
  Scheme :: string
  Opaque :: string
  User :: "(string \<times> string option) option"
  Host :: string
  Path :: string
  RawPath :: string
  OmitHost :: bool
  ForceQuery :: bool
  RawQuery :: string
  Fragment :: string
  RawFragment :: string

text \<open>
  The functions of Go's standard library and the answers of the operating system and of
  the network that the code receives, as parameters: the code under verification is the
  repository's, and every statement below holds for all of them. An error is an \<open>Inl\<close>
  (or a \<open>Some\<close>) of its message, the text of \<open>err.Error()\<close>.
  \<^item> \<open>userHomeDir\<close>, \<open>filepath_Join\<close>, \<open>filepath_Abs\<close>, \<open>filepath_Dir\<close>:
    \<open>os.UserHomeDir\<close> and the functions of \<open>path/filepath\<close>;
  \<^item> \<open>mkdirAll_err\<close>, \<open>create_err\<close>, \<open>rename_err\<close>: the errors of \<open>os.MkdirAll\<close>,
    \<open>os.Create\<close> and \<open>os.Rename\<close> at the given paths, \<open>None\<close> when the call succeeds;
    \<open>newDirSize\<close> is the size the system reports for a directory it has just made;
  \<^item> \<open>url_Parse\<close>, \<open>URL_Query\<close>, \<open>Values_Encode\<close>, \<open>URL_String\<close>: \<open>url.Parse\<close>,
    \<open>(*URL).Query\<close>, \<open>Values.Encode\<close> and \<open>(*URL).String\<close> of \<open>net/url\<close>; a
    \<open>url.Values\<close> is a map from a key to its list of values;
  \<^item> \<open>client_Do\<close>: the answer of \<open>d.client.Do\<close> to a request with the given method and
    URL; \<open>probe_Do\<close>: the same for the client that \<open>GetFileInfoFromURL\<close> builds (fifteen
    seconds of timeout, at most ten redirects) and the headers \<open>tryGetFileInfo\<close> sets.
\<close>

record env =
  userHomeDir :: "string + string"
  filepath_Join :: "string list \<Rightarrow> string"
  filepath_Abs :: "string \<Rightarrow> string + string"
  filepath_Dir :: "string \<Rightarrow> string"
  mkdirAll_err :: "string \<Rightarrow> string option"
  newDirSize :: "64 word"
  create_err :: "string \<Rightarrow> string option"
  rename_err :: "string \<Rightarrow> string \<Rightarrow> string option"
  url_Parse :: "string \<Rightarrow> string + url_URL"
  URL_Query :: "url_URL \<Rightarrow> (string \<rightharpoonup> string list)"
  Values_Encode :: "(string \<rightharpoonup> string list) \<Rightarrow> string"
  URL_String :: "url_URL \<Rightarrow> string"
  client_Do :: "string \<Rightarrow> string \<Rightarrow> string + Response"
  probe_Do :: "string \<Rightarrow> string \<Rightarrow> string + Response"

section \<open>The config package: ExpandPath\<close>

definition ExpandPath :: "env \<Rightarrow> string \<Rightarrow> string" where
  "ExpandPath e path =
     (case (if prefix ''~'' path then userHomeDir e else Inl []) of
        Inr home \<Rightarrow> filepath_Join e [home, drop 1 path]
      | Inl _ \<Rightarrow>
          (case filepath_Abs e path of
             Inl _ \<Rightarrow> path
           | Inr absPath \<Rightarrow> absPath))"

section \<open>The file system\<close>

text \<open>
  \<open>os.Stat\<close> returns the error or the \<open>FileInfo\<close>, of which the code reads
  \<open>Size()\<close> only.
\<close>

definition os_Stat :: "state \<Rightarrow> string \<Rightarrow> string + 64 word" where
  "os_Stat st path =
     (case fs st path of
        NoEntry \<Rightarrow> Inl (''stat '' @ path @ '': no such file or directory'')
      | StatFails msg \<Rightarrow> Inl msg
      | RegularFile content \<Rightarrow> Inr (word_of_nat (length content))
      | Directory sz \<Rightarrow> Inr sz)"

text \<open>
  The effects of the calls that succeed. \<open>os.MkdirAll\<close> leaves a directory at the path,
  \<open>os.Create\<close> an empty regular file, \<open>file.Write\<close> appends to the file, \<open>os.Rename\<close>
  moves the entry onto the new path, \<open>os.Remove\<close> (whose error the code discards)
  removes the entry.
\<close>

definition os_MkdirAll :: "env \<Rightarrow> state \<Rightarrow> string \<Rightarrow> state" where
  "os_MkdirAll e st dir =
     (case fs st dir of
        Directory sz \<Rightarrow> st
      | _ \<Rightarrow> st\<lparr>fs := (fs st)(dir := Directory (newDirSize e))\<rparr>)"

definition os_Create :: "state \<Rightarrow> string \<Rightarrow> state" where
  "os_Create st path = st\<lparr>fs := (fs st)(path := RegularFile [])\<rparr>"

definition file_Write :: "state \<Rightarrow> string \<Rightarrow> string \<Rightarrow> state" where
  "file_Write st path bytes =
     (case fs st path of
        RegularFile content \<Rightarrow> st\<lparr>fs := (fs st)(path := RegularFile (content @ bytes))\<rparr>
      | _ \<Rightarrow> st)"

definition os_Rename :: "state \<Rightarrow> string \<Rightarrow> string \<Rightarrow> state" where
  "os_Rename st oldpath newpath =
     st\<lparr>fs := (fs st)(oldpath := NoEntry, newpath := fs st oldpath)\<rparr>"

definition os_Remove :: "state \<Rightarrow> string \<Rightarrow> state" where
  "os_Remove st path = st\<lparr>fs := (fs st)(path := NoEntry)\<rparr>"

section \<open>The progress store\<close>

text \<open>
  \<open>NewDownloader\<close>, on a given file system. No \<open>Progress\<close> object is allocated yet; the
  heap holds the zero value everywhere.
\<close>

definition zeroProgress :: Progress where
  "zeroProgress =
     \<lparr>FileID = [], FileName = [], Total = 0, Downloaded = 0, Percent = 0, Speed = 0,
      Status = [], Error = []\<rparr>"

definition NewDownloader :: "(string \<Rightarrow> node) \<Rightarrow> state" where
  "NewDownloader files =
     \<lparr>heap = (\<lambda>a. zeroProgress), nextAddr = 0, progress = Map.empty, cancelFns = {},
      listeners = [], nextChan = 0, fs = files, requests = [], published = []\<rparr>"

text \<open>
  \<open>GetProgress\<close> returns the pointer stored for the identifier, or \<open>nil\<close>.
  \<open>GetAllProgress\<close> makes a new map and copies every key with its pointer into it: the
  result is the association of identifiers to addresses at the moment of the call.
  \<open>readProgress\<close> is what a holder of such a map reads through the pointer of a key in
  a state, as the handler does when it encodes the map.
\<close>

definition GetProgress :: "state \<Rightarrow> string \<Rightarrow> nat option" where
  "GetProgress st fileID = progress st fileID"

definition GetAllProgress :: "state \<Rightarrow> (string \<rightharpoonup> nat)" where
  "GetAllProgress st = (\<lambda>k. progress st k)"

definition readProgress :: "state \<Rightarrow> (string \<rightharpoonup> nat) \<Rightarrow> string \<Rightarrow> Progress option" where
  "readProgress st m k = map_option (heap st) (m k)"

text \<open>
  \<open>updateProgress\<close>: when the identifier has a record, the function is applied to the
  object the pointer leads to, and a copy of the object is broadcast.
\<close>

definition updateProgress :: "state \<Rightarrow> string \<Rightarrow> (Progress \<Rightarrow> Progress) \<Rightarrow> state" where
  "updateProgress st fileID fn =
     (case progress st fileID of
        None \<Rightarrow> st
      | Some a \<Rightarrow>
          (let p = fn (heap st a)
           in broadcast (st\<lparr>heap := (heap st)(a := p)\<rparr>) p))"

definition CheckFileStatus :: "env \<Rightarrow> state \<Rightarrow> string \<Rightarrow> string \<Rightarrow> string \<Rightarrow> FileStatus" where
  "CheckFileStatus e st rootDir folder fileName =
     (let fullPath = filepath_Join e [ExpandPath e rootDir, folder, fileName]
      in case os_Stat st fullPath of
           Inl err \<Rightarrow> \<lparr>Exists = False, Size = 0\<rparr>
         | Inr sz \<Rightarrow> \<lparr>Exists = True, Size = sz\<rparr>)"

section \<open>appendToken and IsCivitaiURL\<close>

definition appendToken :: "env \<Rightarrow> string \<Rightarrow> string \<Rightarrow> string" where
  "appendToken e rawURL token =
     (case url_Parse e rawURL of
        Inl err \<Rightarrow>
          (if strings_Contains rawURL ''?'' then rawURL @ ''&token='' @ token
           else rawURL @ ''?token='' @ token)
      | Inr parsed \<Rightarrow>
          (let q = URL_Query e parsed;
               q' = q(''token'' \<mapsto> [token])
           in URL_String e (parsed\<lparr>RawQuery := Values_Encode e q'\<rparr>)))"


section \<open>Download\<close>

text \<open>
  The registration of a transfer (the block under \<open>d.mu.Lock()\<close> after
  \<open>context.WithCancel\<close>): the cancel function is stored under the identifier, and a new
  \<open>Progress\<close> object is allocated and stored under the identifier, whatever was stored
  there before.
\<close>

definition register :: "state \<Rightarrow> FileEntry \<Rightarrow> state" where
  "register st entry =
     st\<lparr>cancelFns := insert (ID entry) (cancelFns st),
        heap := (heap st)(nextAddr st :=
          \<lparr>FileID = ID entry, FileName = FileEntry.FileName entry, Total = 0, Downloaded = 0,
           Percent = 0, Speed = 0, Status = ''downloading'', Error = []\<rparr>),
        progress := (progress st)(ID entry \<mapsto> nextAddr st),
        nextAddr := Suc (nextAddr st)\<rparr>"

definition setError :: "string \<Rightarrow> Progress \<Rightarrow> Progress" where
  "setError msg p = p\<lparr>Status := ''error'', Error := msg\<rparr>"

text \<open>
  The copy loop. Its result is \<open>Inl\<close> of the error \<open>Download\<close> returns from inside the
  loop, or \<open>Inr\<close> of the bytes counted when the loop is left at \<open>io.EOF\<close>. The loop
  returns nothing (\<open>None\<close>) when the reads run out before one of them ends the body:
  the next read never returns. \<open>totalLen\<close> is the variable \<open>total\<close> of the source.
\<close>

fun download_loop ::
  "string \<Rightarrow> string \<Rightarrow> 64 word \<Rightarrow> read_step list \<Rightarrow> 64 word \<Rightarrow> state \<Rightarrow>
     ((string + 64 word) \<times> state) option" where
  "download_loop fileID tmpPath totalLen [] downloaded st = None"
| "download_loop fileID tmpPath totalLen (s # rest) downloaded st =
     (case ctxErr s of
        Some cerr \<Rightarrow>
          Some (Inl cerr,
            updateProgress (os_Remove st tmpPath) fileID (\<lambda>p. p\<lparr>Status := ''cancelled''\<rparr>))
      | None \<Rightarrow>
          (if length (rdata s) > 0 \<and> writeErr s \<noteq> None then
             Some (Inl (the (writeErr s)),
               updateProgress (os_Remove st tmpPath) fileID (setError (the (writeErr s))))
           else
             let downloaded' =
                   (if length (rdata s) > 0 then downloaded + word_of_nat (length (rdata s))
                    else downloaded);
                 percent =
                   (if sint totalLen > 0
                    then real_of_int (sint downloaded') / real_of_int (sint totalLen) * 100
                    else 0);
                 speed =
                   (if elapsed s > 0 then real_of_int (sint downloaded') / elapsed s else 0);
                 st' =
                   (if length (rdata s) > 0 then
                      updateProgress (file_Write st tmpPath (rdata s)) fileID
                        (\<lambda>p. p\<lparr>Downloaded := downloaded', Percent := percent, Speed := speed\<rparr>)
                    else st)
             in (case rerr s of
                   EOF \<Rightarrow> Some (Inr downloaded', st')
                 | ReadErr msg \<Rightarrow>
                     Some (Inl msg, updateProgress (os_Remove st' tmpPath) fileID (setError msg))
                 | NoErr \<Rightarrow> download_loop fileID tmpPath totalLen rest downloaded' st')))"


text \<open>
  The state after one iteration that passed the cancellation check and whose write,
  if there was one, succeeded: nothing changes when the read delivered no byte, and
  otherwise the bytes are in the file and the record has the new count, percentage and
  speed. (A name for a part of \<open>download_loop\<close>, used to state facts about it.)
\<close>

definition after_chunk :: "string \<Rightarrow> string \<Rightarrow> 64 word \<Rightarrow> read_step \<Rightarrow> 64 word \<Rightarrow> state \<Rightarrow> state" where
  "after_chunk i tmp tot s d st =
     (if rdata s = [] then st
      else updateProgress (file_Write st tmp (rdata s)) i
        (\<lambda>p. p\<lparr>Downloaded := d + word_of_nat (length (rdata s)),
               Percent := (if sint tot > 0
                    then real_of_int (sint (d + word_of_nat (length (rdata s)))) / real_of_int (sint tot) * 100
                    else 0),
               Speed := (if elapsed s > 0 then real_of_int (sint (d + word_of_nat (length (rdata s)))) / elapsed s else 0)\<rparr>))"

text \<open>
  From \<open>http.NewRequestWithContext\<close> to the end of \<open>Download\<close>.
  \<open>http.NewRequestWithContext\<close> with the method \<open>GET\<close>, a context and no body fails
  exactly when \<open>url.Parse\<close> fails on the URL, with that error.
\<close>

definition Download_transfer ::
  "env \<Rightarrow> FileEntry \<Rightarrow> string \<Rightarrow> string \<Rightarrow> state \<Rightarrow> (string option \<times> state) option" where
  "Download_transfer e entry fullPath downloadURL st =
     (case url_Parse e downloadURL of
        Inl err \<Rightarrow> Some (Some err, updateProgress st (ID entry) (setError err))
      | Inr u \<Rightarrow>
          (let st1 = st\<lparr>requests := requests st @ [(''GET'', downloadURL)]\<rparr>
           in case client_Do e ''GET'' downloadURL of
                Inl err \<Rightarrow> Some (Some err, updateProgress st1 (ID entry) (setError err))
              | Inr resp \<Rightarrow>
                  (if StatusCode resp \<noteq> 200 then
                     Some (Some (''bad status: '' @ Response.Status resp),
                       updateProgress st1 (ID entry)
                         (setError (''bad status: '' @ Response.Status resp)))
                   else
                     let tmpPath = fullPath @ ''.tmp''
                     in case create_err e tmpPath of
                          Some err \<Rightarrow>
                            Some (Some err, updateProgress st1 (ID entry) (setError err))
                        | None \<Rightarrow>
                            (let totalLen = ContentLength resp;
                                 st2 = updateProgress (os_Create st1 tmpPath) (ID entry)
                                         (\<lambda>p. p\<lparr>Total := totalLen\<rparr>)
                             in case download_loop (ID entry) tmpPath totalLen (Body resp) 0 st2 of
                                  None \<Rightarrow> None
                                | Some (Inl err, st3) \<Rightarrow> Some (Some err, st3)
                                | Some (Inr downloaded, st3) \<Rightarrow>
                                    (case rename_err e tmpPath fullPath of
                                       Some err \<Rightarrow>
                                         Some (Some err,
                                           updateProgress (os_Remove st3 tmpPath) (ID entry)
                                             (setError err))
                                     | None \<Rightarrow>
                                         Some (None,
                                           updateProgress (os_Rename st3 tmpPath fullPath)
                                             (ID entry)
                                             (\<lambda>p. p\<lparr>Status := ''completed'', Percent := 100,
                                                     Downloaded := downloaded\<rparr>)))))))"

text \<open>
  \<open>Download\<close>. It returns \<open>None\<close> when it never returns, and otherwise the error
  (\<open>None\<close> for \<open>nil\<close>) with the state it leaves. The deferred function removes the
  identifier from \<open>d.cancelFns\<close> on every return after the registration.
\<close>

definition Download ::
  "env \<Rightarrow> FileEntry \<Rightarrow> string \<Rightarrow> string \<Rightarrow> bool \<Rightarrow> state \<Rightarrow> (string option \<times> state) option" where
  "Download e entry rootDir token force st =
     (let fullPath = filepath_Join e [ExpandPath e rootDir, Folder entry, FileEntry.FileName entry]
      in if \<not> force \<and> (case os_Stat st fullPath of Inl err \<Rightarrow> False | Inr info \<Rightarrow> True)
         then Some (None, st)
         else
           let dir = filepath_Dir e fullPath
           in case mkdirAll_err e dir of
                Some err \<Rightarrow> Some (Some (''failed to create directory: '' @ err), st)
              | None \<Rightarrow>
                  (let st1 = os_MkdirAll e st dir;
                       downloadURL =
                         (if UseToken entry \<and> token \<noteq> [] then appendToken e (URL entry) token
                          else URL entry);
                       st2 = register st1 entry
                   in map_option
                        (\<lambda>(err, st3). (err, st3\<lparr>cancelFns := cancelFns st3 - {ID entry}\<rparr>))
                        (Download_transfer e entry fullPath downloadURL st2)))"



section \<open>The remote metadata prober\<close>






section \<open>A concrete setting\<close>

text \<open>
  One request and surroundings to run the definitions on: a root directory \<open>/data\<close>,
  the folder \<open>models\<close>, the file \<open>a.bin\<close>. \<open>joinPaths\<close> and \<open>dirOf\<close> are what
  \<open>filepath.Join\<close> and \<open>filepath.Dir\<close> return on clean paths; \<open>demoParsed\<close> is what
  \<open>url.Parse\<close> returns on \<open>demoURL\<close>. The answers of the network and the failures of the
  operating system are set where they are used.
\<close>

fun joinPaths :: "string list \<Rightarrow> string" where
  "joinPaths [] = []"
| "joinPaths [p] = p"
| "joinPaths (p # q # ps) = p @ ''/'' @ joinPaths (q # ps)"

definition dirOf :: "string \<Rightarrow> string" where
  "dirOf p = rev (drop 1 (dropWhile (\<lambda>c. c \<noteq> CHR ''/'') (rev p)))"

definition demoURL :: string where
  "demoURL = ''https://example.com/models/123456''"

definition demoParsed :: url_URL where
  "demoParsed =
     \<lparr>Scheme = ''https'', Opaque = [], User = None, Host = ''example.com'',
      Path = ''/models/123456'', RawPath = [], OmitHost = False, ForceQuery = False,
      RawQuery = [], Fragment = [], RawFragment = []\<rparr>"

definition demoEnv :: "(string \<Rightarrow> string \<Rightarrow> string + Response) \<Rightarrow> env" where
  "demoEnv net =
     \<lparr>userHomeDir = Inr ''/home/user'', filepath_Join = joinPaths, filepath_Abs = Inr,
      filepath_Dir = dirOf, mkdirAll_err = (\<lambda>dir. None), newDirSize = 4096,
      create_err = (\<lambda>path. None), rename_err = (\<lambda>oldpath newpath. None),
      url_Parse = (\<lambda>raw. if raw = demoURL then Inr demoParsed else Inl (''parse '' @ raw)),
      URL_Query = (\<lambda>u. Map.empty), Values_Encode = (\<lambda>q. []), URL_String = (\<lambda>u. []),
      client_Do = net, probe_Do = net\<rparr>"

definition demoEntry :: FileEntry where
  "demoEntry =
     \<lparr>ID = ''f1'', URL = demoURL, FileName = ''a.bin'', Folder = ''models'', Title = [],
      Description = [], SourceURL = [], UseToken = False\<rparr>"

text \<open>A response of five bytes, delivered by two reads, the second with \<open>io.EOF\<close>.\<close>

definition demoBody :: "read_step list" where
  "demoBody =
     [\<lparr>ctxErr = None, rdata = ''abc'', rerr = NoErr, writeErr = None, elapsed = 1\<rparr>,
      \<lparr>ctxErr = None, rdata = ''de'', rerr = EOF, writeErr = None, elapsed = 2\<rparr>]"

definition demoResponse :: Response where
  "demoResponse =
     \<lparr>StatusCode = 200, Status = ''200 OK'', ContentLength = 5, Header = (\<lambda>name. []),
      Body = demoBody\<rparr>"

definition demoNet :: "string \<Rightarrow> string \<Rightarrow> string + Response" where
  "demoNet method u = Inr demoResponse"



text \<open>
  A registered transfer, the map \<open>GetAllProgress\<close> returns for it, and the state after
  a later \<open>updateProgress\<close> that completes the transfer.
\<close>

definition demoRegistered :: state where
  "demoRegistered = register (NewDownloader (\<lambda>p. NoEntry)) demoEntry"

definition demoSnapshot :: "string \<rightharpoonup> nat" where
  "demoSnapshot = GetAllProgress demoRegistered"

definition demoUpdated :: state where
  "demoUpdated =
     updateProgress demoRegistered ''f1''
       (\<lambda>p. p\<lparr>Status := ''completed'', Percent := 100, Downloaded := 5\<rparr>)"


text \<open>A directory that cannot be created.\<close>

definition noMkdirEnv :: env where
  "noMkdirEnv =
     (demoEnv demoNet)\<lparr>mkdirAll_err := (\<lambda>dir. Some ''mkdir /data: permission denied'')\<rparr>"



text \<open>
  A destination that exists and that \<open>os.Stat\<close> cannot examine, as below a directory
  without search permission; there the temporary file cannot be created either.
\<close>

definition hiddenFiles :: "string \<Rightarrow> node" where
  "hiddenFiles =
     (\<lambda>p. NoEntry)(''/data/models/a.bin'' :=
        StatFails ''stat /data/models/a.bin: permission denied'')"

definition noCreateEnv :: env where
  "noCreateEnv =
     (demoEnv demoNet)\<lparr>create_err :=
        (\<lambda>path. Some ''open /data/models/a.bin.tmp: permission denied'')\<rparr>"



section \<open>Facts about the string functions\<close>

lemma index_from_absent: "c \<notin> set s \<Longrightarrow> index_from s [c] i = - 1"
  by (induction s arbitrary: i) (simp_all add: index_from.simps)

lemma index_from_first:
  "c \<notin> set a \<Longrightarrow> index_from (a @ c # b) [c] i = i + int (length a)"
  by (induction a arbitrary: i) (simp_all add: index_from.simps)

lemma strings_Index_absent: "c \<notin> set s \<Longrightarrow> strings_Index s [c] = - 1"
  by (simp add: strings_Index_def index_from_absent)

lemma strings_Index_first:
  "c \<notin> set a \<Longrightarrow> strings_Index (a @ c # b) [c] = int (length a)"
  by (simp add: strings_Index_def index_from_first)

lemma strings_LastIndex_absent: "c \<notin> set s \<Longrightarrow> strings_LastIndex s [c] = - 1"
  by (simp add: strings_LastIndex_def strings_Index_absent)

lemma strings_LastIndex_last:
  "c \<notin> set b \<Longrightarrow> strings_LastIndex (a @ c # b) [c] = int (length a)"
  using strings_Index_first [of c "rev b" "rev a"]
  by (simp add: strings_LastIndex_def)

lemma char_eq_code: "(r = c) = ((of_char r :: nat) = of_char c)"
  by simp

lemma digit_bounds: "(48 \<le> n \<and> n \<le> 57) = ((n::nat) \<in> {48, 49, 50, 51, 52, 53, 54, 55, 56, 57})"
  by (simp only: insert_iff empty_iff) arith

lemma digit_member:
  "(r \<in> set ''0123456789'') =
     ((of_char r :: nat) \<in> {48, 49, 50, 51, 52, 53, 54, 55, 56, 57})"
proof -
  have "(r \<in> set ''0123456789'') =
    (r = CHR ''0'' \<or> r = CHR ''1'' \<or> r = CHR ''2'' \<or> r = CHR ''3'' \<or> r = CHR ''4'' \<or>
     r = CHR ''5'' \<or> r = CHR ''6'' \<or> r = CHR ''7'' \<or> r = CHR ''8'' \<or> r = CHR ''9'')"
    by (simp only: set_simps insert_iff empty_iff simp_thms)
  also have "\<dots> = ((of_char r :: nat) \<in> {48, 49, 50, 51, 52, 53, 54, 55, 56, 57})"
    unfolding char_eq_code [of r] by (simp only: of_char_Char insert_iff empty_iff) simp
  finally show ?thesis .
qed

lemma digit_char_iff:
  "(\<not> (r < CHR ''0'' \<or> r > CHR ''9'')) = (r \<in> set ''0123456789'')"
proof -
  have "(\<not> (r < CHR ''0'' \<or> r > CHR ''9'')) =
      (48 \<le> (of_char r :: nat) \<and> (of_char r :: nat) \<le> 57)"
    by (auto simp add: less_char_def)
  then show ?thesis
    by (simp only: digit_bounds digit_member)
qed

lemma has_non_digit_iff:
  "has_non_digit s = (\<exists>c\<in>set s. c \<notin> set ''0123456789'')"
proof (induction s)
  case Nil
  show ?case by simp
next
  case (Cons r rs)
  have "has_non_digit (r # rs) = (r \<notin> set ''0123456789'' \<or> has_non_digit rs)"
    using digit_char_iff [of r] by (simp only: has_non_digit.simps) metis
  then show ?case
    by (simp add: Cons.IH)
qed

section \<open>Facts about broadcast and the store\<close>

lemma broadcast_loop_length: "length (broadcast_loop chs p) = length chs"
  by (induction chs) simp_all

lemma broadcast_loop_nth:
  "i < length chs \<Longrightarrow> broadcast_loop chs p ! i = trySend (chs ! i) p"
  by (induction chs arbitrary: i) (simp_all add: nth_Cons split: nat.splits)

lemma listeners_broadcast: "listeners (broadcast st p) = broadcast_loop (listeners st) p"
  by (simp add: broadcast_def)

lemma listeners_foldl_broadcast_length:
  "length (listeners (foldl broadcast st ps)) = length (listeners st)"
  by (induction ps arbitrary: st) (simp_all add: listeners_broadcast broadcast_loop_length)

lemma foldl_broadcast_room:
  "i < length (listeners st) \<Longrightarrow>
   length (buf (listeners st ! i)) + length ps \<le> cap (listeners st ! i) \<Longrightarrow>
   buf (listeners (foldl broadcast st ps) ! i) = buf (listeners st ! i) @ ps \<and>
   cap (listeners (foldl broadcast st ps) ! i) = cap (listeners st ! i) \<and>
   chanId (listeners (foldl broadcast st ps) ! i) = chanId (listeners st ! i)"
proof (induction ps arbitrary: st)
  case Nil
  show ?case by simp
next
  case (Cons q qs)
  let ?st = "broadcast st q"
  have i: "i < length (listeners ?st)"
    using Cons.prems(1) by (simp add: listeners_broadcast broadcast_loop_length)
  have step: "listeners ?st ! i = (listeners st ! i)\<lparr>buf := buf (listeners st ! i) @ [q]\<rparr>"
    using Cons.prems by (simp add: listeners_broadcast broadcast_loop_nth trySend_def)
  have room: "length (buf (listeners ?st ! i)) + length qs \<le> cap (listeners ?st ! i)"
    using Cons.prems(2) by (simp add: step)
  show ?case
    using Cons.IH [OF i room] by (simp add: step)
qed

lemma updateProgress_None: "progress st i = None \<Longrightarrow> updateProgress st i fn = st"
  by (simp add: updateProgress_def)

lemma updateProgress_Some:
  "progress st i = Some a \<Longrightarrow>
   updateProgress st i fn =
     st\<lparr>heap := (heap st)(a := fn (heap st a)),
        listeners := broadcast_loop (listeners st) (fn (heap st a)),
        published := published st @ [fn (heap st a)]\<rparr>"
  by (simp add: updateProgress_def broadcast_def Let_def)

lemma progress_updateProgress [simp]: "progress (updateProgress st i fn) = progress st"
  by (cases "progress st i") (simp_all add: updateProgress_None updateProgress_Some)

lemma fs_updateProgress [simp]: "fs (updateProgress st i fn) = fs st"
  by (cases "progress st i") (simp_all add: updateProgress_None updateProgress_Some)

lemma nextAddr_updateProgress [simp]: "nextAddr (updateProgress st i fn) = nextAddr st"
  by (cases "progress st i") (simp_all add: updateProgress_None updateProgress_Some)

lemma requests_updateProgress [simp]: "requests (updateProgress st i fn) = requests st"
  by (cases "progress st i") (simp_all add: updateProgress_None updateProgress_Some)

lemma cancelFns_updateProgress [simp]: "cancelFns (updateProgress st i fn) = cancelFns st"
  by (cases "progress st i") (simp_all add: updateProgress_None updateProgress_Some)




section \<open>Facts about the copy loop and Download\<close>



lemma frame_file_Write [simp]:
  "progress (file_Write st tmp bytes) = progress st"
  "heap (file_Write st tmp bytes) = heap st"
  "nextAddr (file_Write st tmp bytes) = nextAddr st"
  "cancelFns (file_Write st tmp bytes) = cancelFns st"
  "requests (file_Write st tmp bytes) = requests st"
  "published (file_Write st tmp bytes) = published st"
  by (simp_all add: file_Write_def split: node.splits)

lemma frame_os_Remove [simp]:
  "progress (os_Remove st tmp) = progress st"
  "heap (os_Remove st tmp) = heap st"
  "nextAddr (os_Remove st tmp) = nextAddr st"
  "cancelFns (os_Remove st tmp) = cancelFns st"
  "requests (os_Remove st tmp) = requests st"
  "published (os_Remove st tmp) = published st"
  "fs (os_Remove st tmp) = (fs st)(tmp := NoEntry)"
  by (simp_all add: os_Remove_def)

text \<open>One iteration of the copy loop, by the way it leaves the iteration.\<close>

declare download_loop.simps [simp del]

lemma download_loop_cancelled:
  "ctxErr s = Some cerr \<Longrightarrow>
   download_loop i tmp tot (s # rest) d st =
     Some (Inl cerr, updateProgress (os_Remove st tmp) i (\<lambda>p. p\<lparr>Status := ''cancelled''\<rparr>))"
  by (simp add: download_loop.simps)

lemma download_loop_write_fails:
  "ctxErr s = None \<Longrightarrow> rdata s \<noteq> [] \<Longrightarrow> writeErr s = Some werr \<Longrightarrow>
   download_loop i tmp tot (s # rest) d st =
     Some (Inl werr, updateProgress (os_Remove st tmp) i (setError werr))"
  by (simp add: download_loop.simps)

lemma download_loop_chunk:
  "ctxErr s = None \<Longrightarrow> rdata s = [] \<or> writeErr s = None \<Longrightarrow>
   download_loop i tmp tot (s # rest) d st =
     (case rerr s of
        EOF \<Rightarrow> Some (Inr (d + word_of_nat (length (rdata s))), after_chunk i tmp tot s d st)
      | ReadErr msg \<Rightarrow>
          Some (Inl msg, updateProgress (os_Remove (after_chunk i tmp tot s d st) tmp) i (setError msg))
      | NoErr \<Rightarrow> download_loop i tmp tot rest (d + word_of_nat (length (rdata s)))
                  (after_chunk i tmp tot s d st))"
  by (auto simp add: download_loop.simps after_chunk_def Let_def split: read_err.splits)

lemma download_loop_Nil [simp]: "download_loop i tmp tot [] d st = None"
  by (simp add: download_loop.simps)

lemma download_loop_cases:
  obtains (cancelled) cerr where "ctxErr s = Some cerr"
  | (write_fails) werr where "ctxErr s = None" "rdata s \<noteq> []" "writeErr s = Some werr"
  | (chunk) "ctxErr s = None" "rdata s = [] \<or> writeErr s = None"
  by (cases "ctxErr s"; cases "writeErr s"; cases "rdata s = []") auto

lemma frame_after_chunk [simp]:
  "progress (after_chunk i tmp tot s d st) = progress st"
  "nextAddr (after_chunk i tmp tot s d st) = nextAddr st"
  "cancelFns (after_chunk i tmp tot s d st) = cancelFns st"
  "requests (after_chunk i tmp tot s d st) = requests st"
  by (simp_all add: after_chunk_def)









text \<open>
  The converse: the copy loop is left at \<open>io.EOF\<close> only when no cancellation was seen,
  every write succeeded and the reads returned no error up to a read that returned
  \<open>io.EOF\<close>.
\<close>

lemma download_loop_EOF_only_if:
  "download_loop i tmp tot body d st = Some (Inr n, st') \<Longrightarrow>
   \<exists>steps lst unread. body = steps @ lst # unread \<and>
     (\<forall>s\<in>set steps. ctxErr s = None \<and> (rdata s = [] \<or> writeErr s = None) \<and> rerr s = NoErr) \<and>
     ctxErr lst = None \<and> (rdata lst = [] \<or> writeErr lst = None) \<and> rerr lst = EOF"
proof (induction body arbitrary: d st)
  case Nil
  then show ?case by simp
next
  case (Cons s rest)
  show ?case
  proof (cases rule: download_loop_cases [of s])
    case (cancelled cerr)
    with Cons.prems show ?thesis by (simp add: download_loop_cancelled)
  next
    case (write_fails werr)
    with Cons.prems show ?thesis by (simp add: download_loop_write_fails)
  next
    case chunk
    show ?thesis
    proof (cases "rerr s")
      case NoErr
      with chunk Cons.prems
      have "download_loop i tmp tot rest (d + word_of_nat (length (rdata s)))
              (after_chunk i tmp tot s d st) = Some (Inr n, st')"
        by (simp add: download_loop_chunk)
      from Cons.IH [OF this] obtain steps lst unread where
        r: "rest = steps @ lst # unread"
        and g: "\<forall>s\<in>set steps. ctxErr s = None \<and> (rdata s = [] \<or> writeErr s = None) \<and> rerr s = NoErr"
        and l: "ctxErr lst = None \<and> (rdata lst = [] \<or> writeErr lst = None) \<and> rerr lst = EOF"
        by blast
      show ?thesis
        using r g l chunk NoErr
        by (intro exI [of _ "s # steps"] exI [of _ lst] exI [of _ unread]) simp
    next
      case EOF
      with chunk show ?thesis
        by (intro exI [of _ "[]"] exI [of _ s] exI [of _ rest]) simp
    next
      case (ReadErr msg)
      with chunk Cons.prems show ?thesis by (simp add: download_loop_chunk)
    qed
  qed
qed

lemma frame_os_Create [simp]:
  "progress (os_Create st tmp) = progress st"
  "heap (os_Create st tmp) = heap st"
  "nextAddr (os_Create st tmp) = nextAddr st"
  "cancelFns (os_Create st tmp) = cancelFns st"
  "requests (os_Create st tmp) = requests st"
  "published (os_Create st tmp) = published st"
  "fs (os_Create st tmp) = (fs st)(tmp := RegularFile [])"
  by (simp_all add: os_Create_def)

lemma frame_os_Rename [simp]:
  "progress (os_Rename st tmp full) = progress st"
  "heap (os_Rename st tmp full) = heap st"
  "nextAddr (os_Rename st tmp full) = nextAddr st"
  "cancelFns (os_Rename st tmp full) = cancelFns st"
  "requests (os_Rename st tmp full) = requests st"
  "published (os_Rename st tmp full) = published st"
  "fs (os_Rename st tmp full) = (fs st)(tmp := NoEntry, full := fs st tmp)"
  by (simp_all add: os_Rename_def)

lemma frame_os_MkdirAll [simp]:
  "progress (os_MkdirAll e st dir) = progress st"
  "heap (os_MkdirAll e st dir) = heap st"
  "nextAddr (os_MkdirAll e st dir) = nextAddr st"
  "cancelFns (os_MkdirAll e st dir) = cancelFns st"
  "requests (os_MkdirAll e st dir) = requests st"
  "published (os_MkdirAll e st dir) = published st"
  by (simp_all add: os_MkdirAll_def split: node.splits)







section \<open>Facts about the prober\<close>






section \<open>Claims\<close>

text \<open>
  C8. For every string name, looksLikeID returns true exactly when, after removing the
  suffix that starts at the last \<open>'.'\<close> (if any), the remaining string is non-empty and
  consists of decimal digits only. A name without a dot is its own remainder; a name
  \<open>stem.ext\<close> whose \<open>ext\<close> has no dot has the remainder \<open>stem\<close>.
\<close>

theorem looksLikeID_spec:
  "(CHR ''.'' \<notin> set name \<longrightarrow>
      looksLikeID name = (name \<noteq> [] \<and> (\<forall>c\<in>set name. c \<in> set ''0123456789''))) \<and>
   (CHR ''.'' \<notin> set ext \<longrightarrow>
      looksLikeID (stem @ CHR ''.'' # ext) =
        (stem \<noteq> [] \<and> (\<forall>c\<in>set stem. c \<in> set ''0123456789'')))"
proof (intro conjI impI)
  assume "CHR ''.'' \<notin> set name"
  then have "strings_LastIndex name ''.'' = - 1"
    by (rule strings_LastIndex_absent)
  then show "looksLikeID name = (name \<noteq> [] \<and> (\<forall>c\<in>set name. c \<in> set ''0123456789''))"
    by (auto simp add: looksLikeID_def has_non_digit_iff)
next
  assume "CHR ''.'' \<notin> set ext"
  then have "strings_LastIndex (stem @ CHR ''.'' # ext) ''.'' = int (length stem)"
    by (rule strings_LastIndex_last)
  then show "looksLikeID (stem @ CHR ''.'' # ext) =
      (stem \<noteq> [] \<and> (\<forall>c\<in>set stem. c \<in> set ''0123456789''))"
    by (auto simp add: looksLikeID_def has_non_digit_iff)
qed

theorem looksLikeID_spec_witness:
  "looksLikeID ''123456'' \<and> looksLikeID ''123456.bin'' \<and> \<not> looksLikeID ''.bin'' \<and>
   \<not> looksLikeID ''model.safetensors'' \<and> \<not> looksLikeID ''''"
proof -
  have a: "looksLikeID ''123456''"
    using looksLikeID_spec [of "''123456''" "[]" "[]"] by simp
  have b: "looksLikeID ''123456.bin''"
    using looksLikeID_spec [of "[]" "''bin''" "''123456''"] by simp
  have c: "\<not> looksLikeID ''.bin''"
    using looksLikeID_spec [of "[]" "''bin''" "[]"] by simp
  have d: "\<not> looksLikeID ''model.safetensors''"
    using looksLikeID_spec [of "[]" "''safetensors''" "''model''"] by simp
  have e: "\<not> looksLikeID ''''"
    using looksLikeID_spec [of "[]" "[]" "[]"] by simp
  from a b c d e show ?thesis by blast
qed

text \<open>
  C1. The claim: whenever the destination file exists on disk and \<open>force\<close> is false,
  \<open>Download\<close> returns at once, with no network request and no \<open>Progress\<close> record. It
  fails for a destination that exists and that \<open>os.Stat\<close> cannot examine: the skip is
  taken only when \<open>os.Stat\<close> returns no error, so \<open>Download\<close> goes on, registers a record
  for the identifier, sends the \<open>GET\<close> request and ends with status \<open>error\<close>.
\<close>

theorem Download_unexaminable_destination_counterexample:
  "fs (NewDownloader hiddenFiles) ''/data/models/a.bin'' =
     StatFails ''stat /data/models/a.bin: permission denied'' \<and>
   (case Download noCreateEnv demoEntry ''/data'' [] False (NewDownloader hiddenFiles) of
      Some (Some err, st') \<Rightarrow>
        err = ''open /data/models/a.bin.tmp: permission denied'' \<and>
        requests st' = [(''GET'', ''https://example.com/models/123456'')] \<and>
        map_option Status (readProgress st' (GetAllProgress st') ''f1'') = Some ''error''
    | _ \<Rightarrow> False)"
  by code_simp

text \<open>
  C1, as amended. When \<open>os.Stat\<close> on the destination path succeeds (the file exists
  and can be examined) and \<open>force\<close> is false, \<open>Download\<close> returns \<open>nil\<close> at once and
  leaves the state as it was: no request is handed to the network, no \<open>Progress\<close> record
  is made or changed, and the file system is not touched.
\<close>

theorem Download_skips_existing:
  assumes "\<not> force"
    and "os_Stat st (filepath_Join e [ExpandPath e rootDir, Folder entry, FileEntry.FileName entry])
           = Inr info"
  shows "Download e entry rootDir token force st = Some (None, st)"
  using assms by (simp add: Download_def Let_def)

theorem Download_skips_existing_witness:
  "Download (demoEnv demoNet) demoEntry ''/data'' [] False
     (NewDownloader ((\<lambda>p. NoEntry)(''/data/models/a.bin'' := RegularFile ''old'')))
   = Some (None, NewDownloader ((\<lambda>p. NoEntry)(''/data/models/a.bin'' := RegularFile ''old''))) \<and>
   requests (NewDownloader ((\<lambda>p. NoEntry)(''/data/models/a.bin'' := RegularFile ''old''))) = [] \<and>
   GetAllProgress (NewDownloader ((\<lambda>p. NoEntry)(''/data/models/a.bin'' := RegularFile ''old'')))
     ''f1'' = None"
proof -
  have stat: "os_Stat (NewDownloader ((\<lambda>p. NoEntry)(''/data/models/a.bin'' := RegularFile ''old'')))
      (filepath_Join (demoEnv demoNet)
         [ExpandPath (demoEnv demoNet) ''/data'', Folder demoEntry, FileEntry.FileName demoEntry])
      = Inr 3"
    by (simp add: os_Stat_def NewDownloader_def demoEnv_def demoEntry_def ExpandPath_def)
  have "\<not> False" by simp
  from Download_skips_existing [OF this stat]
  show ?thesis
    by (simp add: NewDownloader_def GetAllProgress_def)
qed


text \<open>
  C5. A published update reaches every subscriber whose queue has room, behind what
  the queue already holds, and a subscriber whose queue is full keeps its queue as it is:
  what one subscriber gets depends on its own queue only, the list of subscribers is
  unchanged, and \<open>broadcast\<close> always returns. A subscriber with room for a whole
  sequence of updates holds them in the order of their publication.
\<close>

theorem broadcast_delivery:
  "length (listeners (broadcast st p)) = length (listeners st) \<and>
   (\<forall>i<length (listeners st).
      chanId (listeners (broadcast st p) ! i) = chanId (listeners st ! i) \<and>
      cap (listeners (broadcast st p) ! i) = cap (listeners st ! i) \<and>
      buf (listeners (broadcast st p) ! i) =
        (if length (buf (listeners st ! i)) < cap (listeners st ! i)
         then buf (listeners st ! i) @ [p] else buf (listeners st ! i))) \<and>
   (\<forall>i<length (listeners st).
      length (buf (listeners st ! i)) + length ps \<le> cap (listeners st ! i) \<longrightarrow>
      buf (listeners (foldl broadcast st ps) ! i) = buf (listeners st ! i) @ ps)"
proof (intro conjI allI impI)
  show "length (listeners (broadcast st p)) = length (listeners st)"
    by (simp add: listeners_broadcast broadcast_loop_length)
next
  fix i assume "i < length (listeners st)"
  then have "listeners (broadcast st p) ! i = trySend (listeners st ! i) p"
    by (simp add: listeners_broadcast broadcast_loop_nth)
  then show "chanId (listeners (broadcast st p) ! i) = chanId (listeners st ! i)"
    and "cap (listeners (broadcast st p) ! i) = cap (listeners st ! i)"
    and "buf (listeners (broadcast st p) ! i) =
        (if length (buf (listeners st ! i)) < cap (listeners st ! i)
         then buf (listeners st ! i) @ [p] else buf (listeners st ! i))"
    by (simp_all add: trySend_def)
next
  fix i
  assume "i < length (listeners st)"
    and "length (buf (listeners st ! i)) + length ps \<le> cap (listeners st ! i)"
  then show "buf (listeners (foldl broadcast st ps) ! i) = buf (listeners st ! i) @ ps"
    using foldl_broadcast_room by blast
qed

theorem broadcast_delivery_witness:
  "map (\<lambda>ch. length (buf ch))
     (listeners (broadcast
        ((NewDownloader (\<lambda>p. NoEntry))
           \<lparr>listeners := [\<lparr>chanId = 0, cap = 100, buf = replicate 100 zeroProgress\<rparr>,
                          \<lparr>chanId = 1, cap = 100, buf = []\<rparr>]\<rparr>)
        (zeroProgress\<lparr>FileID := ''f1''\<rparr>))) = [100, 1] \<and>
   buf (listeners (foldl broadcast
        ((NewDownloader (\<lambda>p. NoEntry))
           \<lparr>listeners := [\<lparr>chanId = 0, cap = 100, buf = replicate 100 zeroProgress\<rparr>,
                          \<lparr>chanId = 1, cap = 100, buf = []\<rparr>]\<rparr>)
        [zeroProgress\<lparr>FileID := ''f1''\<rparr>, zeroProgress\<lparr>FileID := ''f2''\<rparr>]) ! 1)
     = [zeroProgress\<lparr>FileID := ''f1''\<rparr>, zeroProgress\<lparr>FileID := ''f2''\<rparr>]"
proof -
  let ?st = "(NewDownloader (\<lambda>p. NoEntry))
           \<lparr>listeners := [\<lparr>chanId = 0, cap = 100, buf = replicate 100 zeroProgress\<rparr>,
                          \<lparr>chanId = 1, cap = 100, buf = []\<rparr>]\<rparr>"
  let ?p = "zeroProgress\<lparr>FileID := ''f1''\<rparr>"
  let ?q = "zeroProgress\<lparr>FileID := ''f2''\<rparr>"
  have l: "listeners ?st = [\<lparr>chanId = 0, cap = 100, buf = replicate 100 zeroProgress\<rparr>,
                          \<lparr>chanId = 1, cap = 100, buf = []\<rparr>]"
    by simp
  note d = broadcast_delivery [of ?st ?p "[?p, ?q]", unfolded l]
  from d have len: "length (listeners (broadcast ?st ?p)) = 2" by simp
  from d have b0: "buf (listeners (broadcast ?st ?p) ! 0) = replicate 100 zeroProgress"
    by simp
  from d have b1: "buf (listeners (broadcast ?st ?p) ! 1) = [?p]"
    by simp
  from d have f1: "buf (listeners (foldl broadcast ?st [?p, ?q]) ! 1) = [?p, ?q]"
    by simp
  have "map (\<lambda>ch. length (buf ch)) (listeners (broadcast ?st ?p)) = [100, 1]"
  proof (rule nth_equalityI)
    show "length (map (\<lambda>ch. length (buf ch)) (listeners (broadcast ?st ?p))) = length [100, 1::nat]"
      using len by simp
  next
    fix i assume "i < length (map (\<lambda>ch. length (buf ch)) (listeners (broadcast ?st ?p)))"
    then have "i = 0 \<or> i = 1" using len by auto
    then show "map (\<lambda>ch. length (buf ch)) (listeners (broadcast ?st ?p)) ! i = [100, 1] ! i"
      using len b0 b1 by auto
  qed
  with f1 show ?thesis by blast
qed

text \<open>
  C10. \<open>CheckFileStatus\<close> answers \<open>{exists: false, size: 0}\<close> whenever \<open>os.Stat\<close> on
  the joined path fails, whatever the error: for a path with no entry and also for an
  entry that cannot be examined. It answers \<open>{exists: true, size}\<close> with the size
  \<open>os.Stat\<close> reports otherwise, for a regular file the length of its content.
\<close>

theorem CheckFileStatus_spec:
  "(os_Stat st (filepath_Join e [ExpandPath e rootDir, folder, fileName]) = Inl err \<longrightarrow>
      CheckFileStatus e st rootDir folder fileName = \<lparr>Exists = False, Size = 0\<rparr>) \<and>
   (fs st (filepath_Join e [ExpandPath e rootDir, folder, fileName]) = StatFails msg \<longrightarrow>
      CheckFileStatus e st rootDir folder fileName = \<lparr>Exists = False, Size = 0\<rparr>) \<and>
   (fs st (filepath_Join e [ExpandPath e rootDir, folder, fileName]) = NoEntry \<longrightarrow>
      CheckFileStatus e st rootDir folder fileName = \<lparr>Exists = False, Size = 0\<rparr>) \<and>
   (os_Stat st (filepath_Join e [ExpandPath e rootDir, folder, fileName]) = Inr sz \<longrightarrow>
      CheckFileStatus e st rootDir folder fileName = \<lparr>Exists = True, Size = sz\<rparr>) \<and>
   (fs st (filepath_Join e [ExpandPath e rootDir, folder, fileName]) = RegularFile content \<longrightarrow>
      CheckFileStatus e st rootDir folder fileName =
        \<lparr>Exists = True, Size = word_of_nat (length content)\<rparr>)"
  by (simp add: CheckFileStatus_def os_Stat_def Let_def)

theorem CheckFileStatus_spec_witness:
  "CheckFileStatus (demoEnv demoNet)
     (NewDownloader ((\<lambda>p. NoEntry)(''/data/models/a.bin'' := StatFails ''stat /data/models/a.bin: permission denied'')))
     ''/data'' ''models'' ''a.bin'' = \<lparr>Exists = False, Size = 0\<rparr> \<and>
   CheckFileStatus (demoEnv demoNet)
     (NewDownloader ((\<lambda>p. NoEntry)(''/data/models/a.bin'' := RegularFile ''hello'')))
     ''/data'' ''models'' ''a.bin'' = \<lparr>Exists = True, Size = 5\<rparr> \<and>
   CheckFileStatus (demoEnv demoNet) (NewDownloader (\<lambda>p. NoEntry))
     ''/data'' ''models'' ''a.bin'' = \<lparr>Exists = False, Size = 0\<rparr>"
proof -
  have path: "filepath_Join (demoEnv demoNet) [ExpandPath (demoEnv demoNet) ''/data'', ''models'', ''a.bin'']
      = ''/data/models/a.bin''"
    by (simp add: demoEnv_def ExpandPath_def)
  have a: "CheckFileStatus (demoEnv demoNet)
     (NewDownloader ((\<lambda>p. NoEntry)(''/data/models/a.bin'' := StatFails ''stat /data/models/a.bin: permission denied'')))
     ''/data'' ''models'' ''a.bin'' = \<lparr>Exists = False, Size = 0\<rparr>"
    using CheckFileStatus_spec [of "NewDownloader ((\<lambda>p. NoEntry)(''/data/models/a.bin'' := StatFails ''stat /data/models/a.bin: permission denied''))"
        "demoEnv demoNet" "''/data''" "''models''" "''a.bin''" _ "''stat /data/models/a.bin: permission denied''"]
    by (simp add: path NewDownloader_def)
  have b: "CheckFileStatus (demoEnv demoNet)
     (NewDownloader ((\<lambda>p. NoEntry)(''/data/models/a.bin'' := RegularFile ''hello'')))
     ''/data'' ''models'' ''a.bin'' = \<lparr>Exists = True, Size = 5\<rparr>"
    using CheckFileStatus_spec [of "NewDownloader ((\<lambda>p. NoEntry)(''/data/models/a.bin'' := RegularFile ''hello''))"
        "demoEnv demoNet" "''/data''" "''models''" "''a.bin''" _ _ _ "''hello''"]
    by (simp add: path NewDownloader_def)
  have c: "CheckFileStatus (demoEnv demoNet) (NewDownloader (\<lambda>p. NoEntry))
     ''/data'' ''models'' ''a.bin'' = \<lparr>Exists = False, Size = 0\<rparr>"
    using CheckFileStatus_spec [of "NewDownloader (\<lambda>p. NoEntry)"
        "demoEnv demoNet" "''/data''" "''models''" "''a.bin''"]
    by (simp add: path NewDownloader_def)
  from a b c show ?thesis by blast
qed


text \<open>
  C4. The claim: a failure of the directory creation shows as a \<open>Progress\<close> record
  with status \<open>error\<close>. The code at such an input: \<open>os.MkdirAll\<close> fails, \<open>Download\<close>
  returns the wrapped error before the registration, and the snapshot holds no record for
  the identifier; nothing is published and no request is made.
\<close>

theorem Download_mkdir_failure_leaves_no_record:
  "(case Download noMkdirEnv demoEntry ''/data'' [] False (NewDownloader (\<lambda>p. NoEntry)) of
      Some (Some err, st') \<Rightarrow>
        err = ''failed to create directory: mkdir /data: permission denied'' \<and>
        GetAllProgress st' ''f1'' = None \<and> published st' = [] \<and> requests st' = []
    | _ \<Rightarrow> False)"
  by code_simp


text \<open>
  C6. The claim: the \<open>Progress\<close> values of the map \<open>GetAllProgress\<close> returned are
  fixed at the moment of the call. The code at such an input: \<open>GetAllProgress\<close> is
  called while the transfer \<open>f1\<close> is registered, and copies the pointer of its record;
  an \<open>updateProgress\<close> then completes the transfer. Read through the map taken before
  the update, the status is \<open>downloading\<close> in the state of the call and \<open>completed\<close>,
  with 5 bytes downloaded, in the state after the update.
\<close>

theorem GetAllProgress_map_shows_later_update:
  "map_option Status (readProgress demoRegistered demoSnapshot ''f1'') = Some ''downloading'' \<and>
   map_option Status (readProgress demoUpdated demoSnapshot ''f1'') = Some ''completed'' \<and>
   map_option Downloaded (readProgress demoRegistered demoSnapshot ''f1'') = Some 0 \<and>
   map_option Downloaded (readProgress demoUpdated demoSnapshot ''f1'') = Some 5"
  by code_simp











end
